theory Spec2Isabelle
  imports Main "HOL-Library.Sublist"
begin
section \<open>The world around the program\<close>

text \<open>
  The program (\<^verbatim>\<open>src/main.go\<close>) is one sequential \<^verbatim>\<open>main\<close> with four helpers. Everything
  it touches outside its own variables is made explicit here: the file system, the
  clock, the remote indexing service, and the results of the library calls that read
  the configuration and the sitemap.

  Durations and instants are Go's \<^verbatim>\<open>time.Duration\<close> (an \<^verbatim>\<open>int64\<close> of nanoseconds); instants
  are nanoseconds since the Unix epoch.
\<close>

type_synonym duration = int

definition Millisecond :: duration where
  "Millisecond = 1000000"

definition Minute :: duration where
  "Minute = 60000000000"

definition Hour :: duration where
  "Hour = 3600000000000"

text \<open>
  Go's \<^verbatim>\<open>int\<close> and \<^verbatim>\<open>int64\<close> wrap around silently on \<^verbatim>\<open>+\<close> and \<^verbatim>\<open>-\<close>; integer division
  truncates towards zero and panics on a zero divisor.
\<close>

definition wrap64 :: "int \<Rightarrow> int" where
  "wrap64 x = (x + 9223372036854775808) mod 18446744073709551616 - 9223372036854775808"

definition quot :: "int \<Rightarrow> int \<Rightarrow> int" where
  "quot a b = (if (a < 0) = (b < 0) then \<bar>a\<bar> div \<bar>b\<bar> else - (\<bar>a\<bar> div \<bar>b\<bar>))"

text \<open>
  Every way the program stops early. The first five are \<^verbatim>\<open>log.Fatal\<close> on an error value
  returned by a call; the two panics are Go run-time panics, which no code of the
  program recovers.
\<close>

datatype error =
    ServiceError
  | ConfigError
  | SitemapError
  | IOError
  | FormatError
  | PanicDivideByZero
  | PanicIndexOutOfRange

text \<open>
  A path of the file system is absent, cannot be opened (a directory, a missing
  directory, missing permissions), or is a file. The content of a file is kept as the
  records that \<^verbatim>\<open>csv.Writer\<close> has written to it, each record a list of fields and each
  one ended by a line feed, as the writer leaves it. The writer's quoting is not
  modelled byte by byte; what the reader does to a field when it undoes the quoting
  is (see \<open>ReadAll\<close>). A file whose last line has no line feed, which only another
  program can produce, is outside the model.
\<close>

datatype fnode = Missing | Denied | File "string list list"

type_synonym filesys = "string \<Rightarrow> fnode"

text \<open>\<^verbatim>\<open>os.OpenFile(path, os.O_RDWR|os.O_CREATE, 0644)\<close>: an absent file is created empty.\<close>

definition OpenFile_create :: "filesys \<Rightarrow> string \<Rightarrow> (error + string list list) \<times> filesys" where
  "OpenFile_create fs path =
     (case fs path of
        Missing \<Rightarrow> (Inr [], fs(path := File []))
      | Denied \<Rightarrow> (Inl IOError, fs)
      | File rows \<Rightarrow> (Inr rows, fs))"

text \<open>\<^verbatim>\<open>os.Open(path)\<close>: read only, nothing is created.\<close>

definition Open_ro :: "filesys \<Rightarrow> string \<Rightarrow> error + string list list" where
  "Open_ro fs path =
     (case fs path of
        Missing \<Rightarrow> Inl IOError
      | Denied \<Rightarrow> Inl IOError
      | File rows \<Rightarrow> Inr rows)"

text \<open>
  The reader of \<^verbatim>\<open>encoding/csv\<close> normalises every line it reads: a carriage return
  directly before a line feed is removed, also inside a quoted field. The writer
  quotes every field that holds a carriage return or a line feed and writes its bytes
  as they are, so a field comes back with each CR LF replaced by LF and is otherwise
  unchanged.
\<close>

fun csv_norm :: "string \<Rightarrow> string" where
  "csv_norm [] = []"
| "csv_norm [c] = [c]"
| "csv_norm (c # d # cs) =
     (if c = CHR 0x0D \<and> d = CHR 0x0A then d # csv_norm cs else c # csv_norm (d # cs))"

text \<open>
  \<^verbatim>\<open>csv.NewReader(file).ReadAll()\<close> with the reader's default \<^verbatim>\<open>FieldsPerRecord = 0\<close>: the
  first record fixes the number of fields, and a later record with another number of
  fields makes the call return \<^verbatim>\<open>ErrFieldCount\<close>. The records are returned with their
  fields normalised.
\<close>

definition ReadAll :: "string list list \<Rightarrow> error + string list list" where
  "ReadAll rows =
     (case rows of
        [] \<Rightarrow> Inr []
      | r # rs \<Rightarrow>
          if list_all (\<lambda>x. length x = length r) rs then Inr (map (map csv_norm) rows)
          else Inl FormatError)"

text \<open>
  The remote call \<^verbatim>\<open>client.UrlNotifications.Publish(&notification).Do()\<close> returns an error
  or a response with a status code.
\<close>

datatype pub_result = TransportError | Status int

text \<open>
  The environment of one run. \<^verbatim>\<open>strconv.Atoi\<close> and \<^verbatim>\<open>parseSitemap\<close> are represented by
  their results (\<open>None\<close> for a returned error). The remote service, its latency and
  faults of the disk at an append are given per publish call, numbered from 0 in the
  order the calls are made. The two formats of the clock (\<^verbatim>\<open>"2006-01-02"\<close> and
  \<^verbatim>\<open>time.RFC3339\<close>) are functions of the instant.
\<close>

record env =
  service_ok :: bool
  rateLimitDay :: "int option"
  rateLimitMinute :: "int option"
  sitemap :: "string list option"
  indexedFile :: string
  sentFile :: string
  files :: filesys
  start :: int
  publish :: "nat \<Rightarrow> string \<Rightarrow> pub_result"
  latency :: "nat \<Rightarrow> nat"
  append_fault :: "nat \<Rightarrow> bool"
  fmt_date :: "int \<Rightarrow> string"
  fmt_rfc3339 :: "int \<Rightarrow> string"

section \<open>The helpers of \<^verbatim>\<open>main.go\<close>\<close>

text \<open>\<^verbatim>\<open>contains\<close> (lines 218-221): key lookup in a \<^verbatim>\<open>map[string]struct{}\<close>, a set of strings.\<close>

definition contains :: "string set \<Rightarrow> string \<Rightarrow> bool" where
  "contains m str = (str \<in> m)"

text \<open>
  \<^verbatim>\<open>readCsv\<close> (lines 171-190). The loop stores \<^verbatim>\<open>record[0]\<close> of every record; indexing a
  record without fields would panic.
\<close>

fun collect_urls :: "string list list \<Rightarrow> string set \<Rightarrow> error + string set" where
  "collect_urls [] urls = Inr urls"
| "collect_urls (record # rest) urls =
     (case record of
        [] \<Rightarrow> Inl PanicIndexOutOfRange
      | f0 # _ \<Rightarrow> collect_urls rest (insert f0 urls))"

definition readCsv :: "filesys \<Rightarrow> string \<Rightarrow> (error + string set) \<times> filesys" where
  "readCsv fs filePath =
     (case OpenFile_create fs filePath of
        (Inl e, fs') \<Rightarrow> (Inl e, fs')
      | (Inr rows, fs') \<Rightarrow>
          (case ReadAll rows of
             Inl e \<Rightarrow> (Inl e, fs')
           | Inr records \<Rightarrow> (collect_urls records {}, fs')))"

text \<open>
  \<^verbatim>\<open>todaySent\<close> (lines 193-215). The loop reads \<^verbatim>\<open>record[1]\<close> of every record, which
  panics on a record with fewer than two fields.
\<close>

fun count_today :: "string \<Rightarrow> string list list \<Rightarrow> int \<Rightarrow> error + int" where
  "count_today today [] sent = Inr sent"
| "count_today today (record # rest) sent =
     (case record of
        _ # f1 # _ \<Rightarrow> count_today today rest (if prefix today f1 then sent + 1 else sent)
      | _ \<Rightarrow> Inl PanicIndexOutOfRange)"

definition todaySent :: "env \<Rightarrow> filesys \<Rightarrow> int \<Rightarrow> string \<Rightarrow> error + int" where
  "todaySent E fs now filePath =
     (case Open_ro fs filePath of
        Inl e \<Rightarrow> Inl e
      | Inr rows \<Rightarrow>
          (case ReadAll rows of
             Inl e \<Rightarrow> Inl e
           | Inr records \<Rightarrow> count_today (fmt_date E now) records 0))"

text \<open>
  \<^verbatim>\<open>appendUrlToCsv\<close> (lines 224-239): opens with \<^verbatim>\<open>O_APPEND|O_CREATE|O_WRONLY\<close> and writes
  one record of the URL and the current time after the records of the file. \<open>fault\<close>
  is a failure of the open that the state of the path does not explain. The error of
  \<^verbatim>\<open>writer.Flush()\<close> is not looked at by the code, so the function reports success
  whenever the open succeeds.
\<close>

definition appendUrlToCsv :: "filesys \<Rightarrow> bool \<Rightarrow> string \<Rightarrow> string \<Rightarrow> string \<Rightarrow> error + filesys" where
  "appendUrlToCsv fs fault filePath url stamp =
     (if fault then Inl IOError
      else case fs filePath of
        Missing \<Rightarrow> Inr (fs(filePath := File [[url, stamp]]))
      | Denied \<Rightarrow> Inl IOError
      | File rows \<Rightarrow> Inr (fs(filePath := File (rows @ [[url, stamp]]))))"

section \<open>The loop of \<^verbatim>\<open>main\<close>\<close>

text \<open>
  What the run does to the outside, in order: a sleep of a duration, a publish call
  for a URL, and a record appended to the sent file for a URL at an instant.
\<close>

datatype event = Sleep duration | Publish string | Append string int

record state =
  count :: int
  todayLimit :: int
  now :: int
  fs :: filesys
  calls :: nat
  trace :: "event list"

text \<open>\<^verbatim>\<open>time.Sleep(d)\<close> returns at once when \<open>d\<close> is zero or negative.\<close>

definition time_Sleep :: "duration \<Rightarrow> state \<Rightarrow> state" where
  "time_Sleep d s = s\<lparr>now := now s + max 0 d, trace := trace s @ [Sleep d]\<rparr>"

text \<open>
  What the loop reads and never writes: the two sets loaded at startup, the daily
  limit and the pacing sleep.
\<close>

record ctx =
  indexedUrls :: "string set"
  sentUrls :: "string set"
  rateLimitDayInt :: int
  sleepDur :: duration

text \<open>Lines 104-111: count the URL, and pause a day when the count passes the limit.\<close>

definition quota_gate :: "ctx \<Rightarrow> state \<Rightarrow> state" where
  "quota_gate C s =
     (let s1 = s\<lparr>count := wrap64 (count s + 1)\<rparr>
      in if count s1 > todayLimit s1
         then (time_Sleep (24 * Hour) s1)\<lparr>count := 0, todayLimit := rateLimitDayInt C\<rparr>
         else s1)"

text \<open>Lines 113-137: publish, and on status 200 append and sleep.\<close>

definition send_url :: "env \<Rightarrow> ctx \<Rightarrow> state \<Rightarrow> string \<Rightarrow> state" where
  "send_url E C s url =
     (let k = calls s;
          s1 = s\<lparr>calls := k + 1, now := now s + int (latency E k),
                  trace := trace s @ [Publish url]\<rparr>
      in case publish E k url of
           TransportError \<Rightarrow> s1
         | Status code \<Rightarrow>
             if code \<noteq> 200 then s1
             else (case appendUrlToCsv (fs s1) (append_fault E k) (sentFile E) url
                          (fmt_rfc3339 E (now s1)) of
                     Inl e \<Rightarrow> s1
                   | Inr fs' \<Rightarrow>
                       time_Sleep (sleepDur C)
                         (s1\<lparr>fs := fs', trace := trace s1 @ [Append url (now s1)]\<rparr>)))"

text \<open>Lines 102-139: one iteration, and the loop over the URLs of the sitemap.\<close>

definition body :: "env \<Rightarrow> ctx \<Rightarrow> state \<Rightarrow> string \<Rightarrow> state" where
  "body E C s url =
     (if \<not> contains (indexedUrls C) url \<and> \<not> contains (sentUrls C) url
      then send_url E C (quota_gate C s) url
      else s)"

fun loop :: "env \<Rightarrow> ctx \<Rightarrow> state \<Rightarrow> string list \<Rightarrow> state" where
  "loop E C s [] = s"
| "loop E C s (url # urls) = loop E C (body E C s url) urls"

section \<open>\<^verbatim>\<open>main\<close>\<close>

text \<open>
  Line 65: \<^verbatim>\<open>time.Minute/time.Duration(rateLimitMinuteInt) + time.Millisecond*100\<close>. The
  quotient lies between \<open>-Minute\<close> and \<open>Minute\<close>, so nothing wraps.
\<close>

definition sleepDur_of :: "int \<Rightarrow> error + duration" where
  "sleepDur_of n =
     (if n = 0 then Inl PanicDivideByZero
      else Inr (quot Minute n + Millisecond * 100))"

text \<open>
  Lines 46-98: everything before the loop. The result is the error that stops the
  program, or the loop's context, the sitemap's URLs and the first state; the file
  system is returned in both cases, since \<^verbatim>\<open>readCsv\<close> may have created files.
\<close>

definition startup :: "env \<Rightarrow> (error + ctx \<times> string list \<times> state) \<times> filesys" where
  "startup E =
     (if \<not> service_ok E then (Inl ServiceError, files E)
      else case rateLimitDay E of
        None \<Rightarrow> (Inl ConfigError, files E)
      | Some day \<Rightarrow>
     (case rateLimitMinute E of
        None \<Rightarrow> (Inl ConfigError, files E)
      | Some minute \<Rightarrow>
     (case sleepDur_of minute of
        Inl e \<Rightarrow> (Inl e, files E)
      | Inr dur \<Rightarrow>
     (case sitemap E of
        None \<Rightarrow> (Inl SitemapError, files E)
      | Some urls \<Rightarrow>
     (case readCsv (files E) (indexedFile E) of
        (Inl e, fs1) \<Rightarrow> (Inl e, fs1)
      | (Inr indexed, fs1) \<Rightarrow>
     (case readCsv fs1 (sentFile E) of
        (Inl e, fs2) \<Rightarrow> (Inl e, fs2)
      | (Inr sent, fs2) \<Rightarrow>
     (case todaySent E fs2 (start E) (sentFile E) of
        Inl e \<Rightarrow> (Inl e, fs2)
      | Inr todayAlreadySent \<Rightarrow>
          (Inr (\<lparr>indexedUrls = indexed, sentUrls = sent,
                  rateLimitDayInt = day, sleepDur = dur\<rparr>,
                urls,
                \<lparr>count = 0, todayLimit = wrap64 (day - todayAlreadySent),
                 now = start E, fs = fs2, calls = 0, trace = []\<rparr>),
           fs2))))))))"

datatype outcome = Aborted error filesys | Finished state

definition main :: "env \<Rightarrow> outcome" where
  "main E =
     (case startup E of
        (Inl e, fs') \<Rightarrow> Aborted e fs'
      | (Inr (C, urls, s0), fs') \<Rightarrow> Finished (loop E C s0 urls))"

text \<open>What an outcome shows: the events of the run and the file system it leaves.\<close>

fun events :: "outcome \<Rightarrow> event list" where
  "events (Aborted e fs') = []"
| "events (Finished s) = trace s"

fun final_fs :: "outcome \<Rightarrow> filesys" where
  "final_fs (Aborted e fs') = fs'"
| "final_fs (Finished s) = fs s"

section \<open>A concrete clock and a concrete environment\<close>

text \<open>
  The two formats of Go's \<^verbatim>\<open>time\<close> package for a clock in UTC, for years 0 to 9999:
  the civil date of a day number counted from 1970-01-01, then the date as
  \<^verbatim>\<open>2006-01-02\<close> and the instant as \<^verbatim>\<open>2006-01-02T15:04:05Z\<close>. They are used to run
  the program on concrete inputs.
\<close>

definition digit :: "int \<Rightarrow> char" where
  "digit d = ''0123456789'' ! nat (d mod 10)"

definition pad2 :: "int \<Rightarrow> string" where
  "pad2 n = [digit (n div 10), digit n]"

definition pad4 :: "int \<Rightarrow> string" where
  "pad4 n = [digit (n div 1000), digit (n div 100), digit (n div 10), digit n]"

definition civil :: "int \<Rightarrow> int \<times> int \<times> int" where
  "civil days =
     (let z = days + 719468;
          era = z div 146097;
          doe = z mod 146097;
          yoe = (doe - doe div 1460 + doe div 36524 - doe div 146096) div 365;
          doy = doe - (365 * yoe + yoe div 4 - yoe div 100);
          mp = (5 * doy + 2) div 153;
          d = doy - (153 * mp + 2) div 5 + 1;
          m = (if mp < 10 then mp + 3 else mp - 9);
          y = yoe + era * 400 + (if m \<le> 2 then 1 else 0)
      in (y, m, d))"

definition utc_date :: "int \<Rightarrow> string" where
  "utc_date t =
     (case civil (t div (24 * Hour)) of
        (y, m, d) \<Rightarrow> pad4 y @ ''-'' @ pad2 m @ ''-'' @ pad2 d)"

definition utc_rfc3339 :: "int \<Rightarrow> string" where
  "utc_rfc3339 t =
     (let secs = (t div 1000000000) mod 86400
      in utc_date t @ ''T'' @ pad2 (secs div 3600) @ '':'' @ pad2 (secs div 60 mod 60)
           @ '':'' @ pad2 (secs mod 60) @ ''Z'')"

text \<open>
  A run that starts on 2024-04-05 at 00:00:00 UTC with the documented limits (200 a
  day, 60 a minute), an empty indexed file, no sent file, an empty sitemap, and a
  remote service that answers every call at once with status 200. The concrete runs
  below change single fields of it.
\<close>

definition env0 :: env where
  "env0 = \<lparr>service_ok = True, rateLimitDay = Some 200, rateLimitMinute = Some 60,
           sitemap = Some [], indexedFile = ''indexed.csv'', sentFile = ''sent.csv'',
           files = (\<lambda>_. Missing)(''indexed.csv'' := File []),
           start = 1712275200000000000,
           publish = (\<lambda>k u. Status 200), latency = (\<lambda>k. 0), append_fault = (\<lambda>k. False),
           fmt_date = utc_date, fmt_rfc3339 = utc_rfc3339\<rparr>"

text \<open>
  The scenario of the specification: sitemap \<open>[a, b, c]\<close>, \<open>b\<close> already indexed, nothing
  sent, daily limit 2.
\<close>

definition env_skip :: env where
  "env_skip = env0\<lparr>rateLimitDay := Some 2, sitemap := Some [''/a'', ''/b'', ''/c''],
                   files := (\<lambda>_. Missing)(''indexed.csv'' := File [[''/b'']])\<rparr>"


text \<open>A daily limit of 1 and three new URLs.\<close>

definition env_over :: env where
  "env_over = env0\<lparr>rateLimitDay := Some 1, sitemap := Some [''/a'', ''/b'', ''/c'']\<rparr>"

text \<open>A daily limit of 1, two new URLs, and a service that answers the first call with 500.\<close>

definition env_fail :: env where
  "env_fail = env0\<lparr>rateLimitDay := Some 1, sitemap := Some [''/a'', ''/b''],
                   publish := (\<lambda>k u. if k = 0 then Status 500 else Status 200)\<rparr>"

text \<open>A per-minute limit of \<open>-1\<close>.\<close>

definition env_neg :: env where
  "env_neg = env0\<lparr>rateLimitMinute := Some (- 1), sitemap := Some [''/a'', ''/b'']\<rparr>"

text \<open>Neither the indexed file nor the sent file exists.\<close>

definition env_noidx :: env where
  "env_noidx = env0\<lparr>sitemap := Some [''/a''], files := (\<lambda>_. Missing)\<rparr>"


text \<open>
  Two new URLs, every call answered with 200, and a disk that refuses the append
  after the first call.
\<close>

definition env_unsaved :: env where
  "env_unsaved = env0\<lparr>sitemap := Some [''/a'', ''/b''], append_fault := (\<lambda>k. k = 0)\<rparr>"

section \<open>Notions used to state the properties\<close>

text \<open>
  A send is complete when the remote call answers 200 and the record is appended:
  the fault flag is off and the sent file can be opened. This is the condition under
  which \<open>send_url\<close> reaches line 137.
\<close>

definition send_ok :: "env \<Rightarrow> state \<Rightarrow> string \<Rightarrow> bool" where
  "send_ok E s url =
     (publish E (calls s) url = Status 200 \<and> \<not> append_fault E (calls s)
      \<and> fs s (sentFile E) \<noteq> Denied)"

text \<open>The instants of the records appended during a run, in order.\<close>

fun append_instants :: "event list \<Rightarrow> int list" where
  "append_instants [] = []"
| "append_instants (Append u t # es) = t # append_instants es"
| "append_instants (Sleep d # es) = append_instants es"
| "append_instants (Publish u # es) = append_instants es"



text \<open>
  \<open>appendUrlToCsv\<close> called for each URL of a list in turn, with the timestamp of each
  call, stopping at the first error.
\<close>

fun append_all :: "filesys \<Rightarrow> string \<Rightarrow> (string \<times> string) list \<Rightarrow> error + filesys" where
  "append_all disk filePath [] = Inr disk"
| "append_all disk filePath ((url, stamp) # rest) =
     (case appendUrlToCsv disk False filePath url stamp of
        Inl e \<Rightarrow> Inl e
      | Inr disk' \<Rightarrow> append_all disk' filePath rest)"

section \<open>Facts about the steps\<close>

lemma wrap64_small:
  "- 9223372036854775808 \<le> x \<Longrightarrow> x < 9223372036854775808 \<Longrightarrow> wrap64 x = x"
  unfolding wrap64_def by (simp add: mod_pos_pos_trivial)

lemma body_known:
  "contains (indexedUrls C) url \<or> contains (sentUrls C) url \<Longrightarrow> body E C s url = s"
  by (auto simp: body_def)

lemma body_fresh:
  "\<not> contains (indexedUrls C) url \<Longrightarrow> \<not> contains (sentUrls C) url \<Longrightarrow>
   body E C s url = send_url E C (quota_gate C s) url"
  by (simp add: body_def)

lemma quota_gate_rec:
  "quota_gate C \<lparr>count = c, todayLimit = t, now = n, fs = f, calls = k, trace = tr\<rparr> =
     (if wrap64 (c + 1) > t
      then \<lparr>count = 0, todayLimit = rateLimitDayInt C, now = n + 86400000000000, fs = f,
            calls = k, trace = tr @ [Sleep 86400000000000]\<rparr>
      else \<lparr>count = wrap64 (c + 1), todayLimit = t, now = n, fs = f, calls = k, trace = tr\<rparr>)"
  by (simp add: quota_gate_def time_Sleep_def Hour_def)

lemma send_url_ok_rec:
  assumes "publish E k url = Status 200" "\<not> append_fault E k" "f (sentFile E) = File rows"
  shows "send_url E C \<lparr>count = c, todayLimit = t, now = n, fs = f, calls = k, trace = tr\<rparr> url =
     \<lparr>count = c, todayLimit = t, now = n + int (latency E k) + max 0 (sleepDur C),
      fs = f(sentFile E := File (rows @ [[url, fmt_rfc3339 E (n + int (latency E k))]])),
      calls = Suc k,
      trace = tr @ [Publish url, Append url (n + int (latency E k)), Sleep (sleepDur C)]\<rparr>"
  using assms by (simp add: send_url_def time_Sleep_def appendUrlToCsv_def)

lemma send_url_refused_rec:
  assumes "publish E k url = Status code" "code \<noteq> 200"
  shows "send_url E C \<lparr>count = c, todayLimit = t, now = n, fs = f, calls = k, trace = tr\<rparr> url =
     \<lparr>count = c, todayLimit = t, now = n + int (latency E k), fs = f, calls = Suc k,
      trace = tr @ [Publish url]\<rparr>"
  using assms by (simp add: send_url_def)

lemma quota_gate_fields:
  "fs (quota_gate C s) = fs s" "calls (quota_gate C s) = calls s"
  by (simp_all add: quota_gate_def time_Sleep_def Let_def)

lemma trace_quota_gate:
  "trace (quota_gate C s) =
     trace s @ (if wrap64 (count s + 1) > todayLimit s then [Sleep (24 * Hour)] else [])"
  by (simp add: quota_gate_def Let_def time_Sleep_def)

lemma now_quota_gate:
  "now (quota_gate C s) =
     now s + (if wrap64 (count s + 1) > todayLimit s then 24 * Hour else 0)"
  by (simp add: quota_gate_def Let_def time_Sleep_def Hour_def)

lemma send_ok_append:
  "send_ok E s url \<longleftrightarrow>
     publish E (calls s) url = Status 200 \<and>
     (\<exists>f. appendUrlToCsv (fs s) (append_fault E (calls s)) (sentFile E) url stamp = Inr f)"
  by (auto simp: send_ok_def appendUrlToCsv_def split: fnode.splits)

lemma trace_send_url:
  "trace (send_url E C s url) =
     trace s @ [Publish url] @
     (if send_ok E s url
      then [Append url (now s + int (latency E (calls s))), Sleep (sleepDur C)] else [])"
  by (auto simp: send_url_def send_ok_def Let_def time_Sleep_def appendUrlToCsv_def
      split: pub_result.splits sum.splits fnode.splits if_splits)

lemma now_send_url:
  "now (send_url E C s url) =
     now s + int (latency E (calls s)) + (if send_ok E s url then max 0 (sleepDur C) else 0)"
  by (auto simp: send_url_def send_ok_def Let_def time_Sleep_def appendUrlToCsv_def
      split: pub_result.splits sum.splits fnode.splits if_splits)

lemma send_ok_quota_gate: "send_ok E (quota_gate C s) url = send_ok E s url"
  by (simp add: send_ok_def quota_gate_fields)

lemma publish_loop:
  "count_list (trace (loop E C s urls)) (Publish u) =
     count_list (trace s) (Publish u) +
     (if contains (indexedUrls C) u \<or> contains (sentUrls C) u then 0 else count_list urls u)"
proof (induction urls arbitrary: s)
  case Nil
  then show ?case by simp
next
  case (Cons a urls)
  show ?case
    by (simp add: Cons.IH body_def trace_send_url trace_quota_gate)
qed

lemma append_loop_known:
  assumes "contains (indexedUrls C) u \<or> contains (sentUrls C) u"
  shows "Append u t \<in> set (trace (loop E C s urls)) \<longleftrightarrow> Append u t \<in> set (trace s)"
  using assms
proof (induction urls arbitrary: s)
  case Nil
  then show ?case by simp
next
  case (Cons a urls)
  have "a \<noteq> u" if "\<not> contains (indexedUrls C) a" "\<not> contains (sentUrls C) a"
    using that Cons.prems by auto
  then show ?case
    using Cons.prems by (auto simp: Cons.IH body_def trace_send_url trace_quota_gate)
qed

lemma main_started:
  "startup E = (Inr (C, urls, s0), fs') \<Longrightarrow> main E = Finished (loop E C s0 urls)"
  by (simp add: main_def)

lemma startup_trace:
  "startup E = (Inr (C, urls, s0), fs') \<Longrightarrow> trace s0 = [] \<and> now s0 = start E \<and> count s0 = 0 \<and> calls s0 = 0"
  by (auto simp: startup_def split: if_splits option.splits sum.splits prod.splits)

lemma startup_env_skip:
  "startup env_skip =
    (Inr (\<lparr>indexedUrls = {''/b''}, sentUrls = {}, rateLimitDayInt = 2, sleepDur = 1100000000\<rparr>,
          [''/a'', ''/b'', ''/c''],
          \<lparr>count = 0, todayLimit = 2, now = 1712275200000000000,
           fs = (\<lambda>_. Missing)(''indexed.csv'' := File [[''/b'']], ''sent.csv'' := File []),
           calls = 0, trace = []\<rparr>),
     (\<lambda>_. Missing)(''indexed.csv'' := File [[''/b'']], ''sent.csv'' := File []))"
  by (simp add: startup_def sleepDur_of_def env_skip_def env0_def readCsv_def
      OpenFile_create_def ReadAll_def todaySent_def Open_ro_def quot_def Minute_def
      Millisecond_def wrap64_def)

text \<open>
  C2. A URL that is in the indexed set or in the sent set loaded at startup is passed
  over by the loop: the iteration leaves the whole state as it was (no event, no
  change of the counter, the clock or the files), and the run neither publishes the
  URL nor appends a record for it.
\<close>

theorem known_url_untouched:
  assumes "startup E = (Inr (C, urls, s0), fs')"
    and "contains (indexedUrls C) u \<or> contains (sentUrls C) u"
  shows "body E C s u = s \<and> Publish u \<notin> set (events (main E))
         \<and> (\<forall>t. Append u t \<notin> set (events (main E)))"
proof -
  have tr0: "trace s0 = []"
    using startup_trace [OF assms(1)] by simp
  have "count_list (trace (loop E C s0 urls)) (Publish u) = 0"
    using assms(2) by (simp add: publish_loop tr0)
  then have "Publish u \<notin> set (trace (loop E C s0 urls))"
    by (simp add: count_list_0_iff)
  moreover have "Append u t \<notin> set (trace (loop E C s0 urls))" for t
    using append_loop_known [OF assms(2)] by (simp add: tr0)
  ultimately show ?thesis
    using assms by (simp add: main_started [OF assms(1)] body_known)
qed

theorem known_url_untouched_witness:
  "body env_skip \<lparr>indexedUrls = {''/b''}, sentUrls = {}, rateLimitDayInt = 2,
                  sleepDur = 1100000000\<rparr>
     \<lparr>count = 1, todayLimit = 2, now = 7, fs = (\<lambda>_. Missing), calls = 1, trace = []\<rparr> ''/b''
   = \<lparr>count = 1, todayLimit = 2, now = 7, fs = (\<lambda>_. Missing), calls = 1, trace = []\<rparr>
   \<and> Publish ''/b'' \<notin> set (events (main env_skip))
   \<and> (\<forall>t. Append ''/b'' t \<notin> set (events (main env_skip)))"
  using known_url_untouched [OF startup_env_skip, of "''/b''"
      "\<lparr>count = 1, todayLimit = 2, now = 7, fs = (\<lambda>_. Missing), calls = 1, trace = []\<rparr>"]
  by (simp add: contains_def)

section \<open>Concrete runs\<close>

lemma utc_stamps:
  "utc_rfc3339 1712275200000000000 = ''2024-04-05T00:00:00Z''"
  "utc_rfc3339 1712275201100000000 = ''2024-04-05T00:00:01Z''"
  "utc_rfc3339 1712361600000000000 = ''2024-04-06T00:00:00Z''"
  "utc_rfc3339 1712361601100000000 = ''2024-04-06T00:00:01Z''"
  "utc_rfc3339 1712361602200000000 = ''2024-04-06T00:00:02Z''"
  by code_simp+

lemma utc_dates:
  "utc_date 1712275200000000000 = ''2024-04-05''"
  "utc_date 1712361603300000000 = ''2024-04-06''"
  by code_simp+

lemma env_over_fields:
  "publish env_over k u = Status 200" "latency env_over k = 0" "\<not> append_fault env_over k"
  "sentFile env_over = ''sent.csv''" "fmt_rfc3339 env_over = utc_rfc3339"
  "fmt_date env_over = utc_date"
  by (simp_all add: env_over_def env0_def)

lemma startup_env_over:
  "startup env_over =
    (Inr (\<lparr>indexedUrls = {}, sentUrls = {}, rateLimitDayInt = 1, sleepDur = 1100000000\<rparr>,
          [''/a'', ''/b'', ''/c''],
          \<lparr>count = 0, todayLimit = 1, now = 1712275200000000000,
           fs = (\<lambda>_. Missing)(''indexed.csv'' := File [], ''sent.csv'' := File []),
           calls = 0, trace = []\<rparr>),
     (\<lambda>_. Missing)(''indexed.csv'' := File [], ''sent.csv'' := File []))"
  by (simp add: startup_def sleepDur_of_def env_over_def env0_def readCsv_def
      OpenFile_create_def ReadAll_def todaySent_def Open_ro_def quot_def Minute_def
      Millisecond_def wrap64_def)

lemma run_env_over:
  "main env_over = Finished
     \<lparr>count = 1, todayLimit = 1, now = 1712361603300000000,
      fs = (\<lambda>_. Missing)(''indexed.csv'' := File [],
             ''sent.csv'' := File [[''/a'', ''2024-04-05T00:00:00Z''],
                                   [''/b'', ''2024-04-06T00:00:01Z''],
                                   [''/c'', ''2024-04-06T00:00:02Z'']]),
      calls = 3,
      trace = [Publish ''/a'', Append ''/a'' 1712275200000000000, Sleep 1100000000,
               Sleep 86400000000000,
               Publish ''/b'', Append ''/b'' 1712361601100000000, Sleep 1100000000,
               Publish ''/c'', Append ''/c'' 1712361602200000000, Sleep 1100000000]\<rparr>"
  by (simp add: main_started [OF startup_env_over] body_fresh contains_def quota_gate_rec
      wrap64_small send_url_ok_rec [where rows = "[]"] send_url_ok_rec env_over_fields utc_stamps)




lemma env_fail_fields:
  "publish env_fail 0 u = Status 500" "publish env_fail (Suc k) u = Status 200"
  "latency env_fail k = 0" "\<not> append_fault env_fail k"
  "sentFile env_fail = ''sent.csv''" "fmt_rfc3339 env_fail = utc_rfc3339"
  by (simp_all add: env_fail_def env0_def)

lemma startup_env_fail:
  "startup env_fail =
    (Inr (\<lparr>indexedUrls = {}, sentUrls = {}, rateLimitDayInt = 1, sleepDur = 1100000000\<rparr>,
          [''/a'', ''/b''],
          \<lparr>count = 0, todayLimit = 1, now = 1712275200000000000,
           fs = (\<lambda>_. Missing)(''indexed.csv'' := File [], ''sent.csv'' := File []),
           calls = 0, trace = []\<rparr>),
     (\<lambda>_. Missing)(''indexed.csv'' := File [], ''sent.csv'' := File []))"
  by (simp add: startup_def sleepDur_of_def env_fail_def env0_def readCsv_def
      OpenFile_create_def ReadAll_def todaySent_def Open_ro_def quot_def Minute_def
      Millisecond_def wrap64_def)

lemma run_env_fail:
  "main env_fail = Finished
     \<lparr>count = 0, todayLimit = 1, now = 1712361601100000000,
      fs = (\<lambda>_. Missing)(''indexed.csv'' := File [],
             ''sent.csv'' := File [[''/b'', ''2024-04-06T00:00:00Z'']]),
      calls = 2,
      trace = [Publish ''/a'', Sleep 86400000000000,
               Publish ''/b'', Append ''/b'' 1712361600000000000, Sleep 1100000000]\<rparr>"
  by (simp add: main_started [OF startup_env_fail] body_fresh contains_def quota_gate_rec
      wrap64_small send_url_ok_rec send_url_refused_rec [where code = 500]
      env_fail_fields utc_stamps)

lemma env_neg_fields:
  "publish env_neg k u = Status 200" "latency env_neg k = 0" "\<not> append_fault env_neg k"
  "sentFile env_neg = ''sent.csv''" "fmt_rfc3339 env_neg = utc_rfc3339"
  by (simp_all add: env_neg_def env0_def)

lemma startup_env_neg:
  "startup env_neg =
    (Inr (\<lparr>indexedUrls = {}, sentUrls = {}, rateLimitDayInt = 200,
            sleepDur = - 59900000000\<rparr>,
          [''/a'', ''/b''],
          \<lparr>count = 0, todayLimit = 200, now = 1712275200000000000,
           fs = (\<lambda>_. Missing)(''indexed.csv'' := File [], ''sent.csv'' := File []),
           calls = 0, trace = []\<rparr>),
     (\<lambda>_. Missing)(''indexed.csv'' := File [], ''sent.csv'' := File []))"
  by (simp add: startup_def sleepDur_of_def env_neg_def env0_def readCsv_def
      OpenFile_create_def ReadAll_def todaySent_def Open_ro_def quot_def Minute_def
      Millisecond_def wrap64_def)

lemma run_env_neg:
  "main env_neg = Finished
     \<lparr>count = 2, todayLimit = 200, now = 1712275200000000000,
      fs = (\<lambda>_. Missing)(''indexed.csv'' := File [],
             ''sent.csv'' := File [[''/a'', ''2024-04-05T00:00:00Z''],
                                   [''/b'', ''2024-04-05T00:00:00Z'']]),
      calls = 2,
      trace = [Publish ''/a'', Append ''/a'' 1712275200000000000, Sleep (- 59900000000),
               Publish ''/b'', Append ''/b'' 1712275200000000000, Sleep (- 59900000000)]\<rparr>"
  by (simp add: main_started [OF startup_env_neg] body_fresh contains_def quota_gate_rec
      wrap64_small send_url_ok_rec env_neg_fields utc_stamps)

lemma env_noidx_fields:
  "publish env_noidx k u = Status 200" "latency env_noidx k = 0" "\<not> append_fault env_noidx k"
  "sentFile env_noidx = ''sent.csv''" "fmt_rfc3339 env_noidx = utc_rfc3339"
  by (simp_all add: env_noidx_def env0_def)

lemma startup_env_noidx:
  "startup env_noidx =
    (Inr (\<lparr>indexedUrls = {}, sentUrls = {}, rateLimitDayInt = 200, sleepDur = 1100000000\<rparr>,
          [''/a''],
          \<lparr>count = 0, todayLimit = 200, now = 1712275200000000000,
           fs = (\<lambda>_. Missing)(''indexed.csv'' := File [], ''sent.csv'' := File []),
           calls = 0, trace = []\<rparr>),
     (\<lambda>_. Missing)(''indexed.csv'' := File [], ''sent.csv'' := File []))"
  by (simp add: startup_def sleepDur_of_def env_noidx_def env0_def readCsv_def
      OpenFile_create_def ReadAll_def todaySent_def Open_ro_def quot_def Minute_def
      Millisecond_def wrap64_def)

lemma run_env_noidx:
  "main env_noidx = Finished
     \<lparr>count = 1, todayLimit = 200, now = 1712275201100000000,
      fs = (\<lambda>_. Missing)(''indexed.csv'' := File [],
             ''sent.csv'' := File [[''/a'', ''2024-04-05T00:00:00Z'']]),
      calls = 1,
      trace = [Publish ''/a'', Append ''/a'' 1712275200000000000, Sleep 1100000000]\<rparr>"
  by (simp add: main_started [OF startup_env_noidx] body_fresh contains_def quota_gate_rec
      wrap64_small send_url_ok_rec env_noidx_fields utc_stamps)


lemma env_skip_fields:
  "publish env_skip k u = Status 200" "latency env_skip k = 0" "\<not> append_fault env_skip k"
  "sentFile env_skip = ''sent.csv''" "fmt_rfc3339 env_skip = utc_rfc3339"
  by (simp_all add: env_skip_def env0_def)

lemma run_env_skip:
  "main env_skip = Finished
     \<lparr>count = 2, todayLimit = 2, now = 1712275202200000000,
      fs = (\<lambda>_. Missing)(''indexed.csv'' := File [[''/b'']],
             ''sent.csv'' := File [[''/a'', ''2024-04-05T00:00:00Z''],
                                   [''/c'', ''2024-04-05T00:00:01Z'']]),
      calls = 2,
      trace = [Publish ''/a'', Append ''/a'' 1712275200000000000, Sleep 1100000000,
               Publish ''/c'', Append ''/c'' 1712275201100000000, Sleep 1100000000]\<rparr>"
  by (simp add: main_started [OF startup_env_skip] body_def contains_def quota_gate_rec
      wrap64_small send_url_ok_rec utc_stamps env_skip_fields)

section \<open>The sent file during the loop\<close>










section \<open>Deduplication within a run\<close>




section \<open>The daily limit\<close>

text \<open>
  C3 does not hold of the code. After the 24-hour pause the counter is set to 0 and
  the URL that caused the pause is then published without being counted, so the day
  after a pause takes one send more than the limit. With a daily limit of 1 and
  three new URLs the sent file ends with two records dated 2024-04-06, and the
  program's own \<open>todaySent\<close>, run on that file at the end of the run, counts 2.
\<close>

theorem daily_limit_overrun:
  "rateLimitDay env_over = Some 1
   \<and> final_fs (main env_over) ''sent.csv'' =
       File [[''/a'', ''2024-04-05T00:00:00Z''], [''/b'', ''2024-04-06T00:00:01Z''],
             [''/c'', ''2024-04-06T00:00:02Z'']]
   \<and> todaySent env_over (final_fs (main env_over)) 1712361603300000000 ''sent.csv'' = Inr 2"
  by (simp add: run_env_over todaySent_def Open_ro_def ReadAll_def env_over_fields utc_dates)
     (simp add: env_over_def env0_def)

section \<open>The decision to pause\<close>

text \<open>
  C4, as stated, fails: the counter compared with the day's limit is not the number
  of URLs sent. It is incremented for the current URL before the comparison and it
  also counts URLs whose publish call failed. With a daily limit of 1, when the call
  for \<open>/a\<close> is answered with status 500, the run pauses before \<open>/b\<close> although no URL
  has been sent.
\<close>

theorem pause_with_nothing_sent:
  "rateLimitDay env_fail = Some 1
   \<and> publish env_fail 0 ''/a'' = Status 500
   \<and> events (main env_fail) =
       [Publish ''/a'', Sleep (24 * Hour),
        Publish ''/b'', Append ''/b'' 1712361600000000000, Sleep 1100000000]"
  by (simp add: run_env_fail env_fail_fields Hour_def) (simp add: env_fail_def env0_def)

lemma count_send_url: "count (send_url E C s url) = count s"
  by (simp add: send_url_def Let_def time_Sleep_def split: pub_result.splits sum.splits)

lemma todayLimit_send_url: "todayLimit (send_url E C s url) = todayLimit s"
  by (simp add: send_url_def Let_def time_Sleep_def split: pub_result.splits sum.splits)

lemma count_quota_gate:
  "count (quota_gate C s) =
     (if wrap64 (count s + 1) > todayLimit s then 0 else wrap64 (count s + 1))"
  by (simp add: quota_gate_def Let_def time_Sleep_def)

lemma todayLimit_quota_gate:
  "todayLimit (quota_gate C s) =
     (if wrap64 (count s + 1) > todayLimit s then rateLimitDayInt C else todayLimit s)"
  by (simp add: quota_gate_def Let_def time_Sleep_def)

text \<open>
  C4, amended. For a URL that is not known, the counter is first incremented (in
  64-bit arithmetic), whether or not the publish call will succeed. The run pauses
  exactly when the incremented counter exceeds the day's limit: it then sleeps 24
  hours, sets the counter to 0 and the day's limit to the configured daily limit,
  and publishes the same URL without a second comparison. Without a pause the URL is
  published at once and the incremented counter is kept.
\<close>

theorem quota_decision:
  assumes "\<not> contains (indexedUrls C) url" and "\<not> contains (sentUrls C) url"
  shows "trace (body E C s url) =
           trace s
           @ (if wrap64 (count s + 1) > todayLimit s then [Sleep (24 * Hour)] else [])
           @ [Publish url]
           @ (if send_ok E s url
              then [Append url (now s
                      + (if wrap64 (count s + 1) > todayLimit s then 24 * Hour else 0)
                      + int (latency E (calls s))),
                    Sleep (sleepDur C)]
              else [])
         \<and> count (body E C s url) =
             (if wrap64 (count s + 1) > todayLimit s then 0 else wrap64 (count s + 1))
         \<and> todayLimit (body E C s url) =
             (if wrap64 (count s + 1) > todayLimit s then rateLimitDayInt C else todayLimit s)"
  using assms
  by (simp add: body_fresh trace_send_url trace_quota_gate now_quota_gate send_ok_quota_gate
      quota_gate_fields count_send_url todayLimit_send_url count_quota_gate
      todayLimit_quota_gate)

theorem quota_decision_witness:
  "trace (body env_fail
       \<lparr>indexedUrls = {}, sentUrls = {}, rateLimitDayInt = 1, sleepDur = 1100000000\<rparr>
       \<lparr>count = 1, todayLimit = 1, now = 1712275200000000000,
        fs = (\<lambda>_. Missing)(''indexed.csv'' := File [], ''sent.csv'' := File []),
        calls = 1, trace = [Publish ''/a'']\<rparr> ''/b'')
   = [Publish ''/a'', Sleep (24 * Hour), Publish ''/b'',
      Append ''/b'' 1712361600000000000, Sleep 1100000000]
   \<and> count (body env_fail
       \<lparr>indexedUrls = {}, sentUrls = {}, rateLimitDayInt = 1, sleepDur = 1100000000\<rparr>
       \<lparr>count = 1, todayLimit = 1, now = 1712275200000000000,
        fs = (\<lambda>_. Missing)(''indexed.csv'' := File [], ''sent.csv'' := File []),
        calls = 1, trace = [Publish ''/a'']\<rparr> ''/b'') = 0
   \<and> todayLimit (body env_fail
       \<lparr>indexedUrls = {}, sentUrls = {}, rateLimitDayInt = 1, sleepDur = 1100000000\<rparr>
       \<lparr>count = 1, todayLimit = 1, now = 1712275200000000000,
        fs = (\<lambda>_. Missing)(''indexed.csv'' := File [], ''sent.csv'' := File []),
        calls = 1, trace = [Publish ''/a'']\<rparr> ''/b'') = 1"
  using quota_decision [of
      "\<lparr>indexedUrls = {}, sentUrls = {}, rateLimitDayInt = 1, sleepDur = 1100000000\<rparr>"
      "''/b''" env_fail
      "\<lparr>count = 1, todayLimit = 1, now = 1712275200000000000,
        fs = (\<lambda>_. Missing)(''indexed.csv'' := File [], ''sent.csv'' := File []),
        calls = 1, trace = [Publish ''/a'']\<rparr>"]
  by (simp add: contains_def send_ok_def env_fail_fields wrap64_small Hour_def)

section \<open>Startup: the per-minute limit\<close>

lemma quot_Minute_negative:
  assumes "- 600 \<le> n" and "n < 0"
  shows "quot Minute n + Millisecond * 100 \<le> 0"
proof -
  have "(60000000000::int) div 600 \<le> 60000000000 div (- n)"
    using assms by (intro zdiv_mono2) auto
  then have "100000000 \<le> (60000000000::int) div (- n)"
    by simp
  moreover have "quot Minute n = - (60000000000 div (- n))"
    using assms by (simp add: quot_def Minute_def)
  ultimately show ?thesis
    by (simp add: Millisecond_def)
qed

lemma collect_urls_error:
  "collect_urls rows acc = Inl e \<Longrightarrow> e = PanicIndexOutOfRange"
  by (induction rows arbitrary: acc) (auto split: list.splits)

lemma count_today_error:
  "count_today today rows k = Inl e \<Longrightarrow> e = PanicIndexOutOfRange"
  by (induction rows arbitrary: k) (auto split: list.splits if_splits)

lemma ReadAll_error: "ReadAll rows = Inl e \<Longrightarrow> e = FormatError"
  by (auto simp: ReadAll_def split: list.splits if_splits)

lemma readCsv_error:
  "readCsv disk p = (Inl e, disk') \<Longrightarrow> e \<in> {IOError, FormatError, PanicIndexOutOfRange}"
  by (auto simp: readCsv_def OpenFile_create_def split: fnode.splits sum.splits
      dest: collect_urls_error ReadAll_error)

lemma todaySent_error:
  "todaySent E disk t p = Inl e \<Longrightarrow> e \<in> {IOError, FormatError, PanicIndexOutOfRange}"
  by (auto simp: todaySent_def Open_ro_def split: fnode.splits sum.splits
      dest: count_today_error ReadAll_error)

lemma startup_unfold:
  assumes "service_ok E" "rateLimitDay E = Some d" "rateLimitMinute E = Some m" "m \<noteq> 0"
    "sitemap E = Some urls"
  shows "startup E =
     (case readCsv (files E) (indexedFile E) of
        (Inl e, fs1) \<Rightarrow> (Inl e, fs1)
      | (Inr indexed, fs1) \<Rightarrow>
     (case readCsv fs1 (sentFile E) of
        (Inl e, fs2) \<Rightarrow> (Inl e, fs2)
      | (Inr sent, fs2) \<Rightarrow>
     (case todaySent E fs2 (start E) (sentFile E) of
        Inl e \<Rightarrow> (Inl e, fs2)
      | Inr todayAlreadySent \<Rightarrow>
          (Inr (\<lparr>indexedUrls = indexed, sentUrls = sent,
                  rateLimitDayInt = d, sleepDur = quot Minute m + Millisecond * 100\<rparr>,
                urls,
                \<lparr>count = 0, todayLimit = wrap64 (d - todayAlreadySent),
                 now = start E, fs = fs2, calls = 0, trace = []\<rparr>),
           fs2))))"
  using assms by (simp add: startup_def sleepDur_of_def)

lemma startup_sleepDur:
  assumes "startup E = (Inr (C, urls, s0), disk)" and "rateLimitMinute E = Some m"
  shows "sleepDur C = quot Minute m + Millisecond * 100 \<and> m \<noteq> 0"
  using assms
  by (auto simp: startup_def sleepDur_of_def split: if_splits option.splits sum.splits
      prod.splits)

text \<open>
  C5, as stated, fails for negative limits: nothing checks the sign of the
  per-minute limit. With a limit of \<open>-1\<close> the run is not stopped; the sleep after each
  send is \<open>-59.9\<close> seconds, which returns at once, and both URLs are sent at the same
  instant.
\<close>

theorem negative_limit_not_rejected:
  "rateLimitMinute env_neg = Some (- 1)
   \<and> events (main env_neg) =
       [Publish ''/a'', Append ''/a'' 1712275200000000000, Sleep (- 59900000000),
        Publish ''/b'', Append ''/b'' 1712275200000000000, Sleep (- 59900000000)]"
  by (simp add: run_env_neg) (simp add: env_neg_def env0_def)

text \<open>
  C5, amended. When the service is created and both limits parse as integers, a
  per-minute limit of 0 stops the program before the sitemap and the files are read,
  by the run-time panic of the integer division on line 65 and not by a check of the
  configuration. Any other limit, negative ones included, is accepted: the program
  can only stop for the sitemap or the files, and otherwise enters the loop with the
  sleep \<open>60s / limit + 100ms\<close>, which is zero or negative, hence no pacing at all, for
  limits from \<open>-600\<close> to \<open>-1\<close>.
\<close>

theorem minute_limit_zero_or_negative:
  assumes "service_ok E" and "rateLimitDay E = Some d" and "rateLimitMinute E = Some n"
  shows "if n = 0 then main E = Aborted PanicDivideByZero (files E)
         else (case startup E of
                 (Inl e, disk) \<Rightarrow>
                   e \<in> {SitemapError, IOError, FormatError, PanicIndexOutOfRange}
               | (Inr (C, urls, s0), disk) \<Rightarrow>
                   sleepDur C = quot Minute n + Millisecond * 100
                   \<and> (- 600 \<le> n \<and> n < 0 \<longrightarrow>
                        sleepDur C \<le> 0 \<and> now (time_Sleep (sleepDur C) s) = now s))"
proof (cases "n = 0")
  case True
  then show ?thesis
    using assms by (simp add: main_def startup_def sleepDur_of_def)
next
  case False
  show ?thesis
  proof (cases "sitemap E")
    case None
    then show ?thesis
      using assms False by (simp add: startup_def sleepDur_of_def)
  next
    case (Some urls)
    note u = startup_unfold [OF assms(1,2,3) False Some]
    show ?thesis
    proof (cases "startup E")
      case (Pair r disk)
      show ?thesis
      proof (cases r)
        case (Inl e)
        have "e \<in> {IOError, FormatError, PanicIndexOutOfRange}"
          using Pair Inl unfolding u
          by (auto split: prod.splits sum.splits dest: readCsv_error todaySent_error)
        then show ?thesis
          using False Pair Inl by auto
      next
        case (Inr x)
        obtain C urls' s0 where x: "x = (C, urls', s0)"
          by (cases x) auto
        have sd: "sleepDur C = quot Minute n + Millisecond * 100"
          using startup_sleepDur [of E C urls' s0 disk n] Pair Inr x assms(3) by simp
        have "sleepDur C \<le> 0 \<and> now (time_Sleep (sleepDur C) s) = now s"
          if "- 600 \<le> n" "n < 0"
          using quot_Minute_negative [OF that] sd by (simp add: time_Sleep_def)
        then show ?thesis
          using False Pair Inr x sd by simp
      qed
    qed
  qed
qed

lemma env_neg_config:
  "service_ok env_neg" "rateLimitDay env_neg = Some 200" "rateLimitMinute env_neg = Some (- 1)"
  by (simp_all add: env_neg_def env0_def)

theorem minute_limit_zero_or_negative_witness:
  "sleepDur \<lparr>indexedUrls = {}, sentUrls = {}, rateLimitDayInt = 200,
             sleepDur = - 59900000000\<rparr> = quot Minute (- 1) + Millisecond * 100
   \<and> now (time_Sleep (- 59900000000)
        \<lparr>count = 0, todayLimit = 200, now = 5, fs = (\<lambda>_. Missing), calls = 0, trace = []\<rparr>) = 5"
  using minute_limit_zero_or_negative [OF env_neg_config, of
      "\<lparr>count = 0, todayLimit = 200, now = 5, fs = (\<lambda>_. Missing), calls = 0, trace = []\<rparr>"]
  by (simp add: startup_env_neg)

section \<open>Startup: the two files\<close>

lemma readCsv_Missing: "disk p = Missing \<Longrightarrow> readCsv disk p = (Inr {}, disk(p := File []))"
  by (simp add: readCsv_def OpenFile_create_def ReadAll_def)

lemma readCsv_Denied: "disk p = Denied \<Longrightarrow> readCsv disk p = (Inl IOError, disk)"
  by (simp add: readCsv_def OpenFile_create_def)

lemma readCsv_File:
  "disk p = File rows \<Longrightarrow>
   readCsv disk p =
     (case ReadAll rows of Inl e \<Rightarrow> (Inl e, disk) | Inr records \<Rightarrow> (collect_urls records {}, disk))"
  by (simp add: readCsv_def OpenFile_create_def)

lemma todaySent_empty: "disk p = File [] \<Longrightarrow> todaySent E disk t p = Inr 0"
  by (simp add: todaySent_def Open_ro_def ReadAll_def)

text \<open>
  C6, as stated, fails for the indexed file: \<open>readCsv\<close> opens both files with
  \<^verbatim>\<open>O_RDWR|O_CREATE\<close>, so an absent indexed file is created and loaded as the empty set,
  and the run goes on.
\<close>

theorem absent_indexed_file_loaded_as_empty:
  "files env_noidx (indexedFile env_noidx) = Missing
   \<and> events (main env_noidx) =
       [Publish ''/a'', Append ''/a'' 1712275200000000000, Sleep 1100000000]
   \<and> final_fs (main env_noidx) (indexedFile env_noidx) = File []"
  by (simp add: run_env_noidx) (simp add: env_noidx_def env0_def)

text \<open>
  C6, amended. With a valid configuration and sitemap, loading treats an absent file
  as empty and creates it, for the indexed file as for the sent file, and stops the
  program with an I/O error for a path that cannot be opened. The four parts: the
  indexed file cannot be opened; the indexed file is absent; the sent file cannot be
  opened; the sent file is absent (the day's limit is then the full daily limit).
\<close>

theorem load_absent_or_denied:
  assumes "service_ok E" and "rateLimitDay E = Some d" and "rateLimitMinute E = Some m"
    and "m \<noteq> 0" and "sitemap E = Some urls"
  shows "(files E (indexedFile E) = Denied \<longrightarrow> main E = Aborted IOError (files E))
       \<and> (files E (indexedFile E) = Missing \<longrightarrow>
            readCsv (files E) (indexedFile E) =
              (Inr {}, (files E)(indexedFile E := File [])))
       \<and> (readCsv (files E) (indexedFile E) = (Inr I, fs1) \<and> fs1 (sentFile E) = Denied \<longrightarrow>
            main E = Aborted IOError fs1)
       \<and> (readCsv (files E) (indexedFile E) = (Inr I, fs1) \<and> fs1 (sentFile E) = Missing \<longrightarrow>
            startup E =
              (Inr (\<lparr>indexedUrls = I, sentUrls = {}, rateLimitDayInt = d,
                      sleepDur = quot Minute m + Millisecond * 100\<rparr>,
                    urls,
                    \<lparr>count = 0, todayLimit = wrap64 d, now = start E,
                     fs = fs1(sentFile E := File []), calls = 0, trace = []\<rparr>),
               fs1(sentFile E := File [])))"
proof -
  note u = startup_unfold [OF assms]
  have a: "main E = Aborted IOError (files E)" if "files E (indexedFile E) = Denied"
    using that by (simp add: main_def u readCsv_Denied)
  have c: "main E = Aborted IOError fs1"
    if "readCsv (files E) (indexedFile E) = (Inr I, fs1)" "fs1 (sentFile E) = Denied"
    using that by (simp add: main_def u readCsv_Denied)
  have d: "startup E =
              (Inr (\<lparr>indexedUrls = I, sentUrls = {}, rateLimitDayInt = d,
                      sleepDur = quot Minute m + Millisecond * 100\<rparr>,
                    urls,
                    \<lparr>count = 0, todayLimit = wrap64 d, now = start E,
                     fs = fs1(sentFile E := File []), calls = 0, trace = []\<rparr>),
               fs1(sentFile E := File []))"
    if "readCsv (files E) (indexedFile E) = (Inr I, fs1)" "fs1 (sentFile E) = Missing"
    using that by (simp add: u readCsv_Missing todaySent_empty)
  show ?thesis
    using a c d by (simp add: readCsv_Missing)
qed

lemma env_noidx_config:
  "service_ok env_noidx" "rateLimitDay env_noidx = Some 200"
  "rateLimitMinute env_noidx = Some 60" "(60::int) \<noteq> 0" "sitemap env_noidx = Some [''/a'']"
  by (simp_all add: env_noidx_def env0_def)

lemma env_noidx_files:
  "files env_noidx = (\<lambda>_. Missing)" "indexedFile env_noidx = ''indexed.csv''"
  "start env_noidx = 1712275200000000000"
  by (simp_all add: env_noidx_def env0_def)

theorem load_absent_or_denied_witness:
  "readCsv (\<lambda>_. Missing) ''indexed.csv'' = (Inr {}, (\<lambda>_. Missing)(''indexed.csv'' := File []))
   \<and> startup env_noidx =
       (Inr (\<lparr>indexedUrls = {}, sentUrls = {}, rateLimitDayInt = 200,
               sleepDur = quot Minute 60 + Millisecond * 100\<rparr>,
             [''/a''],
             \<lparr>count = 0, todayLimit = wrap64 200, now = 1712275200000000000,
              fs = (\<lambda>_. Missing)(''indexed.csv'' := File [], ''sent.csv'' := File []),
              calls = 0, trace = []\<rparr>),
        (\<lambda>_. Missing)(''indexed.csv'' := File [], ''sent.csv'' := File []))"
  using load_absent_or_denied [OF env_noidx_config, of "{}"
      "(\<lambda>_. Missing)(''indexed.csv'' := File [])"]
  by (simp add: env_noidx_files env_noidx_fields readCsv_Missing)

section \<open>Startup: rows without a timestamp\<close>







section \<open>Pacing\<close>

lemma append_instants_append:
  "append_instants (xs @ ys) = append_instants xs @ append_instants ys"
  by (induction xs rule: append_instants.induct) simp_all

lemma now_body_mono: "now s \<le> now (body E C s url)"
  by (simp add: body_def now_send_url now_quota_gate Hour_def)

lemma body_spaced:
  assumes "0 \<le> sleepDur C"
    and "sorted_wrt (\<lambda>a b. a + sleepDur C \<le> b) (append_instants (trace s))"
    and "\<forall>t \<in> set (append_instants (trace s)). t + sleepDur C \<le> now s"
  shows "sorted_wrt (\<lambda>a b. a + sleepDur C \<le> b) (append_instants (trace (body E C s url)))
       \<and> (\<forall>t \<in> set (append_instants (trace (body E C s url))).
            t + sleepDur C \<le> now (body E C s url))"
proof (cases "contains (indexedUrls C) url \<or> contains (sentUrls C) url")
  case True
  then show ?thesis
    using assms by (simp add: body_known)
next
  case False
  let ?q = "quota_gate C s"
  have q: "now s \<le> now ?q"
    by (simp add: now_quota_gate Hour_def)
  have tr: "append_instants (trace (body E C s url)) =
              append_instants (trace s)
              @ (if send_ok E s url then [now ?q + int (latency E (calls s))] else [])"
    using False
    by (simp add: body_def trace_send_url trace_quota_gate append_instants_append
        send_ok_quota_gate quota_gate_fields)
  have nw: "now (body E C s url) =
              now ?q + int (latency E (calls s))
              + (if send_ok E s url then max 0 (sleepDur C) else 0)"
    using False by (simp add: body_def now_send_url send_ok_quota_gate quota_gate_fields)
  show ?thesis
  proof (cases "send_ok E s url")
    case True
    have old: "t + sleepDur C \<le> now ?q + int (latency E (calls s))"
      if "t \<in> set (append_instants (trace s))" for t
      using assms(3) that q by fastforce
    show ?thesis
      using True assms(1,2) old
      by (auto simp: tr nw sorted_wrt_append dest!: old)
  next
    case False
    have "t + sleepDur C \<le> now ?q + int (latency E (calls s))"
      if "t \<in> set (append_instants (trace s))" for t
      using assms(3) that q by fastforce
    then show ?thesis
      using False assms(2) by (simp add: tr nw)
  qed
qed

lemma loop_spaced:
  assumes "0 \<le> sleepDur C"
    and "sorted_wrt (\<lambda>a b. a + sleepDur C \<le> b) (append_instants (trace s))"
    and "\<forall>t \<in> set (append_instants (trace s)). t + sleepDur C \<le> now s"
  shows "sorted_wrt (\<lambda>a b. a + sleepDur C \<le> b) (append_instants (trace (loop E C s urls)))
       \<and> (\<forall>t \<in> set (append_instants (trace (loop E C s urls))).
            t + sleepDur C \<le> now (loop E C s urls))"
  using assms
proof (induction urls arbitrary: s)
  case Nil
  then show ?case by simp
next
  case (Cons url urls)
  have "sorted_wrt (\<lambda>a b. a + sleepDur C \<le> b) (append_instants (trace (body E C s url)))
       \<and> (\<forall>t \<in> set (append_instants (trace (body E C s url))).
            t + sleepDur C \<le> now (body E C s url))"
    by (rule body_spaced) (use Cons.prems in auto)
  then show ?case
    using Cons.IH [of "body E C s url"] Cons.prems(1) by simp
qed

lemma quot_Minute_positive: "1 \<le> n \<Longrightarrow> quot Minute n = Minute div n"
  by (simp add: quot_def Minute_def)

lemma send_url_fault_rec:
  assumes "append_fault E k"
  shows "send_url E C \<lparr>count = c, todayLimit = t, now = n, fs = f, calls = k, trace = tr\<rparr> url =
     \<lparr>count = c, todayLimit = t, now = n + int (latency E k), fs = f, calls = Suc k,
      trace = tr @ [Publish url]\<rparr>"
  using assms by (simp add: send_url_def appendUrlToCsv_def Let_def split: pub_result.splits)

lemma env_unsaved_fields:
  "publish env_unsaved k u = Status 200" "latency env_unsaved k = 0"
  "append_fault env_unsaved 0" "\<not> append_fault env_unsaved (Suc k)"
  "sentFile env_unsaved = ''sent.csv''" "fmt_rfc3339 env_unsaved = utc_rfc3339"
  "rateLimitMinute env_unsaved = Some 60" "start env_unsaved = 1712275200000000000"
  by (simp_all add: env_unsaved_def env0_def)

lemma startup_env_unsaved:
  "startup env_unsaved =
    (Inr (\<lparr>indexedUrls = {}, sentUrls = {}, rateLimitDayInt = 200, sleepDur = 1100000000\<rparr>,
          [''/a'', ''/b''],
          \<lparr>count = 0, todayLimit = 200, now = 1712275200000000000,
           fs = (\<lambda>_. Missing)(''indexed.csv'' := File [], ''sent.csv'' := File []),
           calls = 0, trace = []\<rparr>),
     (\<lambda>_. Missing)(''indexed.csv'' := File [], ''sent.csv'' := File []))"
  by (simp add: startup_def sleepDur_of_def env_unsaved_def env0_def readCsv_def
      OpenFile_create_def ReadAll_def todaySent_def Open_ro_def quot_def Minute_def
      Millisecond_def wrap64_def)

lemma run_env_unsaved:
  "main env_unsaved = Finished
     \<lparr>count = 2, todayLimit = 200, now = 1712275201100000000,
      fs = (\<lambda>_. Missing)(''indexed.csv'' := File [],
             ''sent.csv'' := File [[''/b'', ''2024-04-05T00:00:00Z'']]),
      calls = 2,
      trace = [Publish ''/a'',
               Publish ''/b'', Append ''/b'' 1712275200000000000, Sleep 1100000000]\<rparr>"
  by (simp add: main_started [OF startup_env_unsaved] body_fresh contains_def quota_gate_rec
      wrap64_small send_url_ok_rec send_url_fault_rec env_unsaved_fields utc_stamps)

text \<open>
  C8, as stated, fails for a send that succeeds and is not recorded: when the append
  returns an error the loop goes to the next URL without the sleep (lines 133-136).
  With a per-minute limit of 60, both calls answered 200 at once and the first append
  refused, \<open>/b\<close> is published directly after \<open>/a\<close> and recorded at the instant the run
  started: the two successful sends are not separated at all.
\<close>

theorem unrecorded_send_not_paced:
  "rateLimitMinute env_unsaved = Some 60
   \<and> publish env_unsaved 0 ''/a'' = Status 200 \<and> publish env_unsaved 1 ''/b'' = Status 200
   \<and> latency env_unsaved 0 = 0 \<and> latency env_unsaved 1 = 0
   \<and> start env_unsaved = 1712275200000000000
   \<and> events (main env_unsaved) =
       [Publish ''/a'',
        Publish ''/b'', Append ''/b'' 1712275200000000000, Sleep 1100000000]"
  by (simp add: run_env_unsaved env_unsaved_fields)

text \<open>
  C8, amended. With a per-minute limit \<open>n \<ge> 1\<close> the pacing sleep is
  \<open>60s div n + 100ms\<close>, at least 600 milliseconds for \<open>n = 60\<close>. An iteration whose call
  is answered 200 and whose record is appended ends with the publish call, the
  record and this sleep, and leaves the clock the whole sleep after the instant of
  the record. Hence at the start of every iteration of the run the clock is at least
  the sleep past every record appended so far, and the instants of the records are
  pairwise at least the sleep apart. The clock advances by the sleeps and by the
  latency of the remote calls. Nothing is said of sends that are not recorded.
\<close>

theorem recorded_send_then_sleep:
  assumes "startup E = (Inr (C, urls, s0), fs')"
    and "rateLimitMinute E = Some n" and "1 \<le> n"
  shows "sleepDur C = Minute div n + 100 * Millisecond
       \<and> (n = 60 \<longrightarrow> 600 * Millisecond \<le> sleepDur C)
       \<and> (\<forall>s url.
            \<not> contains (indexedUrls C) url \<and> \<not> contains (sentUrls C) url
            \<and> publish E (calls s) url = Status 200
            \<and> (\<exists>f. appendUrlToCsv (fs s) (append_fault E (calls s)) (sentFile E) url
                      (fmt_rfc3339 E (now (quota_gate C s) + int (latency E (calls s))))
                    = Inr f)
            \<longrightarrow> trace (body E C s url) =
                  trace (quota_gate C s)
                  @ [Publish url,
                     Append url (now (quota_gate C s) + int (latency E (calls s))),
                     Sleep (sleepDur C)]
                \<and> now (body E C s url) =
                    now (quota_gate C s) + int (latency E (calls s)) + sleepDur C)
       \<and> (\<forall>ys zs. urls = ys @ zs \<longrightarrow>
            (\<forall>t \<in> set (append_instants (trace (loop E C s0 ys))).
               t + sleepDur C \<le> now (loop E C s0 ys)))
       \<and> sorted_wrt (\<lambda>a b. a + sleepDur C \<le> b) (append_instants (events (main E)))"
proof -
  have sd: "sleepDur C = Minute div n + 100 * Millisecond"
    using startup_sleepDur [OF assms(1,2)] quot_Minute_positive [OF assms(3)] by simp
  have "0 \<le> Minute div n"
    using assms(3) by (simp add: Minute_def pos_imp_zdiv_nonneg_iff)
  then have pos: "0 \<le> sleepDur C"
    by (simp add: sd Millisecond_def)
  have sixty: "600 * Millisecond \<le> sleepDur C" if "n = 60"
    using that by (simp add: sd Minute_def Millisecond_def)
  have step: "trace (body E C s url) =
                  trace (quota_gate C s)
                  @ [Publish url,
                     Append url (now (quota_gate C s) + int (latency E (calls s))),
                     Sleep (sleepDur C)]
                \<and> now (body E C s url) =
                    now (quota_gate C s) + int (latency E (calls s)) + sleepDur C"
    if "\<not> contains (indexedUrls C) url" "\<not> contains (sentUrls C) url"
      "publish E (calls s) url = Status 200"
      "\<exists>f. appendUrlToCsv (fs s) (append_fault E (calls s)) (sentFile E) url
              (fmt_rfc3339 E (now (quota_gate C s) + int (latency E (calls s)))) = Inr f"
    for s url
  proof -
    have "send_ok E s url"
      using that(3,4) send_ok_append by blast
    then show ?thesis
      using that(1,2) pos
      by (simp add: body_fresh trace_send_url now_send_url send_ok_quota_gate
          quota_gate_fields)
  qed
  have tr0: "trace s0 = []"
    using startup_trace [OF assms(1)] by simp
  have inv: "sorted_wrt (\<lambda>a b. a + sleepDur C \<le> b) (append_instants (trace (loop E C s0 ys)))
       \<and> (\<forall>t \<in> set (append_instants (trace (loop E C s0 ys))).
            t + sleepDur C \<le> now (loop E C s0 ys))" for ys
    by (rule loop_spaced [OF pos]) (simp_all add: tr0)
  have sp: "sorted_wrt (\<lambda>a b. a + sleepDur C \<le> b) (append_instants (events (main E)))"
    using inv [of urls] by (simp add: main_started [OF assms(1)])
  show ?thesis
    using sd sixty step inv sp by blast
qed

lemma env_over_minute: "rateLimitMinute env_over = Some 60"
  by (simp add: env_over_def env0_def)

theorem recorded_send_then_sleep_witness:
  "(1::int) \<le> 60
   \<and> 600 * Millisecond \<le> (1100000000::int)
   \<and> trace (body env_over
        \<lparr>indexedUrls = {}, sentUrls = {}, rateLimitDayInt = 1, sleepDur = 1100000000\<rparr>
        \<lparr>count = 0, todayLimit = 1, now = 1712275200000000000,
         fs = (\<lambda>_. Missing)(''indexed.csv'' := File [], ''sent.csv'' := File []),
         calls = 0, trace = []\<rparr> ''/a'')
       = [Publish ''/a'', Append ''/a'' 1712275200000000000, Sleep 1100000000]
   \<and> now (body env_over
        \<lparr>indexedUrls = {}, sentUrls = {}, rateLimitDayInt = 1, sleepDur = 1100000000\<rparr>
        \<lparr>count = 0, todayLimit = 1, now = 1712275200000000000,
         fs = (\<lambda>_. Missing)(''indexed.csv'' := File [], ''sent.csv'' := File []),
         calls = 0, trace = []\<rparr> ''/a'')
       = 1712275200000000000 + 1100000000
   \<and> sorted_wrt (\<lambda>a b. a + 1100000000 \<le> b) (append_instants (events (main env_over)))"
proof -
  let ?C = "\<lparr>indexedUrls = {}, sentUrls = {}, rateLimitDayInt = 1, sleepDur = 1100000000\<rparr>"
  let ?s = "\<lparr>count = 0, todayLimit = 1, now = 1712275200000000000,
         fs = (\<lambda>_. Missing)(''indexed.csv'' := File [], ''sent.csv'' := File []),
         calls = 0, trace = []\<rparr>"
  have n: "(1::int) \<le> 60"
    by simp
  note th = recorded_send_then_sleep [OF startup_env_over env_over_minute n]
  have pre: "\<not> contains (indexedUrls ?C) ''/a'' \<and> \<not> contains (sentUrls ?C) ''/a''
      \<and> publish env_over (calls ?s) ''/a'' = Status 200
      \<and> (\<exists>f. appendUrlToCsv (fs ?s) (append_fault env_over (calls ?s)) (sentFile env_over)
                ''/a'' (fmt_rfc3339 env_over
                   (now (quota_gate ?C ?s) + int (latency env_over (calls ?s)))) = Inr f)"
    by (simp add: contains_def env_over_fields appendUrlToCsv_def)
  have "trace (body env_over ?C ?s ''/a'') =
          trace (quota_gate ?C ?s)
          @ [Publish ''/a'',
             Append ''/a'' (now (quota_gate ?C ?s) + int (latency env_over (calls ?s))),
             Sleep (sleepDur ?C)]
        \<and> now (body env_over ?C ?s ''/a'') =
            now (quota_gate ?C ?s) + int (latency env_over (calls ?s)) + sleepDur ?C"
    using th pre by blast
  moreover have "sorted_wrt (\<lambda>a b. a + sleepDur ?C \<le> b)
                   (append_instants (events (main env_over)))"
    using th by blast
  moreover have "n = 60 \<longrightarrow> 600 * Millisecond \<le> sleepDur ?C" for n :: int
    using th by simp
  ultimately show ?thesis
    by (simp add: quota_gate_rec wrap64_small env_over_fields Millisecond_def)
qed

section \<open>Appending and reloading\<close>

lemma length_csv_norm: "length (csv_norm u) \<le> length u"
  by (induction u rule: csv_norm.induct) auto

lemma all_nat_0_Suc: "(\<forall>i. P i) \<longleftrightarrow> P 0 \<and> (\<forall>i. P (Suc i))"
  by (metis not0_implies_Suc)

lemma csv_norm_id_iff:
  "csv_norm u = u \<longleftrightarrow>
     (\<forall>i. Suc i < length u \<longrightarrow> \<not> (u ! i = CHR 0x0D \<and> u ! Suc i = CHR 0x0A))"
proof (induction u rule: csv_norm.induct)
  case 1
  then show ?case by simp
next
  case (2 c)
  then show ?case by simp
next
  case (3 c d cs)
  show ?case
  proof (cases "c = CHR 0x0D \<and> d = CHR 0x0A")
    case True
    have "length (d # csv_norm cs) < length (c # d # cs)"
      using length_csv_norm [of cs] by simp
    then have "d # csv_norm cs \<noteq> c # d # cs"
      by (metis less_irrefl)
    moreover have "\<not> (\<forall>i. Suc i < length (c # d # cs) \<longrightarrow>
                      \<not> ((c # d # cs) ! i = CHR 0x0D \<and> (c # d # cs) ! Suc i = CHR 0x0A))"
      using True by (auto intro: exI [of _ 0])
    ultimately show ?thesis
      using True by simp
  next
    case False
    have "(\<forall>i. Suc i < length (c # d # cs) \<longrightarrow>
              \<not> ((c # d # cs) ! i = CHR 0x0D \<and> (c # d # cs) ! Suc i = CHR 0x0A))
          \<longleftrightarrow> (\<forall>i. Suc i < length (d # cs) \<longrightarrow>
              \<not> ((d # cs) ! i = CHR 0x0D \<and> (d # cs) ! Suc i = CHR 0x0A))"
      using False
      by (subst all_nat_0_Suc) auto
    moreover have "csv_norm (c # d # cs) = c # csv_norm (d # cs)"
      using False by auto
    then have "csv_norm (c # d # cs) = c # d # cs \<longleftrightarrow> csv_norm (d # cs) = d # cs"
      by (simp only: list.inject simp_thms)
    moreover have "csv_norm (d # cs) = d # cs \<longleftrightarrow>
          (\<forall>i. Suc i < length (d # cs) \<longrightarrow>
              \<not> ((d # cs) ! i = CHR 0x0D \<and> (d # cs) ! Suc i = CHR 0x0A))"
      using "3.IH"(2) False by blast
    ultimately show ?thesis
      by blast
  qed
qed

lemma collect_urls_pairs:
  "collect_urls (rows @ map (\<lambda>(u, t). [f u, g t]) us) acc =
     (case collect_urls rows acc of Inl e \<Rightarrow> Inl e | Inr S \<Rightarrow> Inr (S \<union> f ` fst ` set us))"
proof (induction rows arbitrary: acc)
  case Nil
  show ?case
    by (induction us arbitrary: acc) (auto split: prod.splits)
next
  case (Cons r rows)
  then show ?case
    by (cases r) auto
qed

lemma append_all_File:
  "disk p = File rows \<Longrightarrow>
   append_all disk p us = Inr (disk(p := File (rows @ map (\<lambda>(u, t). [u, t]) us)))"
proof (induction us arbitrary: disk rows)
  case Nil
  then show ?case by (simp add: fun_upd_idem)
next
  case (Cons x us)
  obtain u t where x: "x = (u, t)"
    by (cases x)
  have step: "appendUrlToCsv disk False p u t = Inr (disk(p := File (rows @ [[u, t]])))"
    using Cons.prems by (simp add: appendUrlToCsv_def)
  have rest: "append_all (disk(p := File (rows @ [[u, t]]))) p us =
      Inr ((disk(p := File (rows @ [[u, t]])))
             (p := File ((rows @ [[u, t]]) @ map (\<lambda>(u, t). [u, t]) us)))"
    by (rule Cons.IH) simp
  show ?case
    by (simp add: x step rest) (simp add: fun_upd_def)
qed

lemma append_all_Missing:
  "disk p = Missing \<Longrightarrow>
   append_all disk p us =
     Inr (if us = [] then disk else disk(p := File (map (\<lambda>(u, t). [u, t]) us)))"
proof (cases us)
  case Nil
  then show ?thesis by simp
next
  case (Cons x us')
  assume m: "disk p = Missing"
  obtain u t where x: "x = (u, t)"
    by (cases x)
  have step: "appendUrlToCsv disk False p u t = Inr (disk(p := File [[u, t]]))"
    using m by (simp add: appendUrlToCsv_def)
  have rest: "append_all (disk(p := File [[u, t]])) p us' =
      Inr ((disk(p := File [[u, t]]))(p := File ([[u, t]] @ map (\<lambda>(u, t). [u, t]) us')))"
    by (rule append_all_File) simp
  show ?thesis
    by (simp add: Cons x step rest)
qed

lemma ReadAll_pairs:
  "ReadAll (map (\<lambda>(u, t). [u, t]) us) = Inr (map (\<lambda>(u, t). [csv_norm u, csv_norm t]) us)"
  by (cases us) (auto simp: ReadAll_def list_all_iff split: prod.splits)

lemma readCsv_pairs:
  "disk p = File (map (\<lambda>(u, t). [u, t]) us) \<Longrightarrow>
   fst (readCsv disk p) = Inr (csv_norm ` fst ` set us)"
  using collect_urls_pairs [of "[]" csv_norm csv_norm us "{}"]
  by (simp add: readCsv_File ReadAll_pairs)

text \<open>
  C9, as stated, fails for a URL that holds a carriage return directly before a line
  feed: the CSV reader removes the carriage return, so after the reload the set holds
  the URL with LF in place of CR LF, and the URL that was appended is not known.
\<close>

theorem crlf_url_not_known_after_reload:
  "append_all (\<lambda>_. Missing) ''sent.csv''
     [([CHR ''a'', CHR 0x0D, CHR 0x0A, CHR ''b''], ''2024-04-05T00:00:00Z'')]
   = Inr ((\<lambda>_. Missing)(''sent.csv'' :=
            File [[[CHR ''a'', CHR 0x0D, CHR 0x0A, CHR ''b''], ''2024-04-05T00:00:00Z'']]))
   \<and> fst (readCsv ((\<lambda>_. Missing)(''sent.csv'' :=
            File [[[CHR ''a'', CHR 0x0D, CHR 0x0A, CHR ''b''], ''2024-04-05T00:00:00Z'']]))
          ''sent.csv'')
     = Inr {[CHR ''a'', CHR 0x0A, CHR ''b'']}
   \<and> \<not> contains {[CHR ''a'', CHR 0x0A, CHR ''b'']} [CHR ''a'', CHR 0x0D, CHR 0x0A, CHR ''b'']"
  by (simp add: appendUrlToCsv_def readCsv_def OpenFile_create_def ReadAll_def contains_def)

text \<open>
  C9, amended. Starting from a sent file that is absent or empty, appending the URLs
  of any list one by one succeeds, and reading the file back with \<open>readCsv\<close> gives a set
  that contains exactly the appended URLs with every CR LF replaced by LF. When no
  appended URL holds a carriage return directly before a line feed (\<open>csv_norm\<close> leaves
  such a URL as it is), the set contains exactly the appended URLs.
\<close>

theorem append_reload_normalised:
  assumes "disk p = Missing \<or> disk p = File []"
  shows "\<exists>disk' S. append_all disk p us = Inr disk'
           \<and> fst (readCsv disk' p) = Inr S
           \<and> (\<forall>u. contains S u = (u \<in> csv_norm ` fst ` set us))
           \<and> ((\<forall>u \<in> fst ` set us. csv_norm u = u) \<longrightarrow>
                (\<forall>u. contains S u = (u \<in> fst ` set us)))"
proof (cases "us = []")
  case True
  then show ?thesis
    using assms by (auto simp: readCsv_Missing readCsv_File ReadAll_def contains_def)
next
  case False
  let ?d = "disk(p := File (map (\<lambda>(u, t). [u, t]) us))"
  have a: "append_all disk p us = Inr ?d"
    using assms False append_all_File [of disk p "[]" us]
    by (auto simp: append_all_Missing)
  have r: "fst (readCsv ?d p) = Inr (csv_norm ` fst ` set us)"
    by (rule readCsv_pairs) simp
  have "csv_norm ` fst ` set us = fst ` set us" if "\<forall>u \<in> fst ` set us. csv_norm u = u"
    using that by force
  then show ?thesis
    using a r by (auto simp: contains_def)
qed

theorem append_reload_normalised_witness:
  "\<exists>disk' S. append_all (\<lambda>_. Missing) ''sent.csv''
                [(''/a'', ''2024-04-05T00:00:00Z''), (''/b'', ''2024-04-05T00:00:01Z'')]
              = Inr disk'
     \<and> fst (readCsv disk' ''sent.csv'') = Inr S
     \<and> (\<forall>u. contains S u = (u \<in> {''/a'', ''/b''}))"
proof -
  have "\<forall>u \<in> fst ` set [(''/a'', ''2024-04-05T00:00:00Z''), (''/b'', ''2024-04-05T00:00:01Z'')].
          csv_norm u = u"
    by simp
  then show ?thesis
    using append_reload_normalised [of "\<lambda>_. Missing" "''sent.csv''"
        "[(''/a'', ''2024-04-05T00:00:00Z''), (''/b'', ''2024-04-05T00:00:01Z'')]"]
    by simp
qed

section \<open>When the pacing sleep happens\<close>

text \<open>
  C10. For a URL that is not known, after the quota check the iteration publishes the
  URL; it then appends the record and sleeps the pacing duration exactly when the call
  answered 200 and the append succeeded. After a transport error, another status or
  a failed append, the iteration ends with the publish call: nothing is appended, no
  sleep follows, and the clock stands where the call left it.
\<close>

theorem pacing_sleep_iff_recorded:
  assumes "\<not> contains (indexedUrls C) url" and "\<not> contains (sentUrls C) url"
  shows "trace (body E C s url) =
           trace (quota_gate C s) @ [Publish url]
           @ (if publish E (calls s) url = Status 200
                 \<and> (\<exists>f. appendUrlToCsv (fs s) (append_fault E (calls s)) (sentFile E) url
                           (fmt_rfc3339 E (now (quota_gate C s) + int (latency E (calls s))))
                         = Inr f)
              then [Append url (now (quota_gate C s) + int (latency E (calls s))),
                    Sleep (sleepDur C)]
              else [])
       \<and> now (body E C s url) =
           now (quota_gate C s) + int (latency E (calls s))
           + (if publish E (calls s) url = Status 200
                 \<and> (\<exists>f. appendUrlToCsv (fs s) (append_fault E (calls s)) (sentFile E) url
                           (fmt_rfc3339 E (now (quota_gate C s) + int (latency E (calls s))))
                         = Inr f)
              then max 0 (sleepDur C) else 0)"
  using assms
  by (simp add: body_fresh trace_send_url now_send_url send_ok_quota_gate quota_gate_fields
      send_ok_append [symmetric])

theorem pacing_sleep_iff_recorded_witness:
  "trace (body env_fail
       \<lparr>indexedUrls = {}, sentUrls = {}, rateLimitDayInt = 1, sleepDur = 1100000000\<rparr>
       \<lparr>count = 0, todayLimit = 1, now = 1712275200000000000,
        fs = (\<lambda>_. Missing)(''indexed.csv'' := File [], ''sent.csv'' := File []),
        calls = 0, trace = []\<rparr> ''/a'')
   = [Publish ''/a'']
   \<and> now (body env_fail
       \<lparr>indexedUrls = {}, sentUrls = {}, rateLimitDayInt = 1, sleepDur = 1100000000\<rparr>
       \<lparr>count = 0, todayLimit = 1, now = 1712275200000000000,
        fs = (\<lambda>_. Missing)(''indexed.csv'' := File [], ''sent.csv'' := File []),
        calls = 0, trace = []\<rparr> ''/a'')
   = 1712275200000000000"
  using pacing_sleep_iff_recorded [of
      "\<lparr>indexedUrls = {}, sentUrls = {}, rateLimitDayInt = 1, sleepDur = 1100000000\<rparr>"
      "''/a''" env_fail
      "\<lparr>count = 0, todayLimit = 1, now = 1712275200000000000,
        fs = (\<lambda>_. Missing)(''indexed.csv'' := File [], ''sent.csv'' := File []),
        calls = 0, trace = []\<rparr>"]
  by (simp add: contains_def env_fail_fields quota_gate_rec wrap64_small)

end
